theory Spec2Isabelle
  imports Main "HOL-Library.Sublist" "HOL-Library.AList"
begin

section \<open>JavaScript values\<close>

text \<open>
  The client handles values that come out of \<open>JSON.parse\<close> and object literals. They are
  modelled by one datatype. Numbers are the integers (rep counts, seconds, HTTP status
  codes); fractions, \<open>NaN\<close> and the rounding of doubles beyond \<open>2^53\<close> are outside the
  model. A string is a list of code units below 256 (Latin-1 text). An object is the
  list of its properties in insertion order, each key bound once.
\<close>

datatype jsval =
    JUndefined
  | JNull
  | JBool bool
  | JNum int
  | JStr string
  | JArr "jsval list"
  | JObj "(string \<times> jsval) list"

datatype error_kind = Error | TypeError | SyntaxError | OtherError string

text \<open>ToBoolean: what \<open>!v\<close>, \<open>v || d\<close>, \<open>v ? a : b\<close> and \<open>if (v)\<close> test.\<close>

fun truthy :: "jsval \<Rightarrow> bool" where
  "truthy JUndefined = False"
| "truthy JNull = False"
| "truthy (JBool b) = b"
| "truthy (JNum n) = (n \<noteq> 0)"
| "truthy (JStr s) = (s \<noteq> [])"
| "truthy (JArr xs) = True"
| "truthy (JObj kvs) = True"

definition js_or :: "jsval \<Rightarrow> jsval \<Rightarrow> jsval" where
  "js_or a b = (if truthy a then a else b)"

text \<open>
  Reading a named property \<open>v.k\<close>, for the data properties the client reads (never
  \<open>length\<close> or a method): \<open>null\<close> and \<open>undefined\<close> throw a TypeError, an object
  gives the property or \<open>undefined\<close>, every other value gives \<open>undefined\<close>.
\<close>

fun js_get :: "jsval \<Rightarrow> string \<Rightarrow> error_kind + jsval" where
  "js_get JUndefined k = Inl TypeError"
| "js_get JNull k = Inl TypeError"
| "js_get (JObj kvs) k = Inr (case map_of kvs k of Some v \<Rightarrow> v | None \<Rightarrow> JUndefined)"
| "js_get v k = Inr JUndefined"

fun isArray :: "jsval \<Rightarrow> bool" where
  "isArray (JArr xs) = True"
| "isArray v = False"

subsection \<open>Strings\<close>

text \<open>
  \<open>String.prototype.toLowerCase\<close> on Latin-1 text: the capitals \<open>A\<close> to \<open>Z\<close> and
  U+00C0 to U+00DE (without the multiplication sign U+00D7) move up by 32.
\<close>

definition lower_char :: "char \<Rightarrow> char" where
  "lower_char c =
     (let n = (of_char c :: nat)
      in if (65 \<le> n \<and> n \<le> 90) \<or> (192 \<le> n \<and> n \<le> 222 \<and> n \<noteq> 215)
         then char_of (n + 32) else c)"

definition toLowerCase :: "string \<Rightarrow> string" where
  "toLowerCase s = map lower_char s"

text \<open>
  The regular expression class \<open>\s\<close> below U+0100: tab, line feed, vertical tab, form
  feed, carriage return, space and the no-break space.
\<close>

definition is_space :: "char \<Rightarrow> bool" where
  "is_space c = ((of_char c :: nat) \<in> {9, 10, 11, 12, 13, 32, 160})"

text \<open>
  \<open>s.replace(/\s+/g, '_')\<close>: the scan goes left to right; at a white-space character the
  greedy \<open>\s+\<close> takes the whole run, one \<open>_\<close> is written and the scan goes on after the
  run; any other character is copied.
\<close>

function replace_space_runs :: "string \<Rightarrow> string" where
  "replace_space_runs [] = []"
| "replace_space_runs (c # cs) =
     (if is_space c then CHR ''_'' # replace_space_runs (dropWhile is_space cs)
      else c # replace_space_runs cs)"
  by pat_completeness auto
termination
  by (relation "measure length") (auto simp: length_dropWhile_le less_Suc_eq_le)

text \<open>
  The same in the words of the specification, "every run of white space replaced by
  \<open>_\<close>": a white-space character that starts a run becomes \<open>_\<close>, one that continues a
  run disappears. The flag says whether the previous character was white space.
\<close>

fun underscore_runs_from :: "bool \<Rightarrow> string \<Rightarrow> string" where
  "underscore_runs_from in_run [] = []"
| "underscore_runs_from in_run (c # cs) =
     (if is_space c
      then (if in_run then [] else [CHR ''_'']) @ underscore_runs_from True cs
      else c # underscore_runs_from False cs)"

definition underscore_runs :: "string \<Rightarrow> string" where
  "underscore_runs s = underscore_runs_from False s"

section \<open>The workout service: createExerciseSequence\<close>

text \<open>
  The statistics object handed over when an exercise is completed: \<open>repCount\<close> and
  \<open>duration\<close> are numbers or absent, \<open>other_stats\<close> are its remaining properties.
\<close>

record stats =
  repCount :: "int option"
  duration :: "int option"
  other_stats :: "(string \<times> jsval) list"

text \<open>
  An element of the exercise sequence: the object literal that
  \<open>createExerciseSequence\<close> builds, and the \<open>results\<close> property that the reducer adds
  on completion (\<open>None\<close> while the property is absent).
\<close>

record exercise_item =
  item_id :: string
  name :: jsval
  sets :: jsval
  reps :: jsval
  is_timed :: jsval
  target_duration :: jsval
  target_reps :: jsval
  completed :: bool
  results :: "stats option"

text \<open>Sequencing of steps that may throw: the first throw ends the evaluation.\<close>

definition and_then :: "error_kind + 'a \<Rightarrow> ('a \<Rightarrow> error_kind + 'b) \<Rightarrow> error_kind + 'b" where
  "and_then r f = (case r of Inl e \<Rightarrow> Inl e | Inr x \<Rightarrow> f x)"

text \<open>
  The method call \<open>v.toLowerCase()\<close>: on a string it is \<open>toLowerCase\<close>; on
  \<open>undefined\<close> and \<open>null\<close> the property read throws a TypeError, and on every other
  value of the model \<open>v.toLowerCase\<close> is \<open>undefined\<close>, and calling it throws a
  TypeError.
\<close>

fun call_toLowerCase :: "jsval \<Rightarrow> error_kind + string" where
  "call_toLowerCase (JStr s) = Inr (toLowerCase s)"
| "call_toLowerCase v = Inl TypeError"

text \<open>
  The arrow function mapped over \<open>workoutDay.exercises\<close>, its property reads in the
  order of the object literal. \<open>id\<close> is \<open>item_id\<close> here.
\<close>

definition exercise_to_item :: "jsval \<Rightarrow> error_kind + exercise_item" where
  "exercise_to_item exercise =
     and_then (js_get exercise ''name'') (\<lambda>name0.
     and_then (call_toLowerCase name0) (\<lambda>lowered.
     and_then (js_get exercise ''name'') (\<lambda>name1.
     and_then (js_get exercise ''sets'') (\<lambda>sets0.
     and_then (js_get exercise ''reps'') (\<lambda>reps0.
     and_then (js_get exercise ''is_timed'') (\<lambda>timed0.
     and_then (js_get exercise ''is_timed'') (\<lambda>timed1.
     and_then (if truthy timed1 then js_get exercise ''reps'' else Inr JNull) (\<lambda>duration0.
     and_then (js_get exercise ''is_timed'') (\<lambda>timed2.
     and_then (if \<not> truthy timed2 then js_get exercise ''reps'' else Inr JNull) (\<lambda>reps1.
       Inr \<lparr> item_id = replace_space_runs lowered,
             name = name1,
             sets = js_or sets0 (JNum 1),
             reps = js_or reps0 (JNum 10),
             is_timed = js_or timed0 (JBool False),
             target_duration = duration0,
             target_reps = reps1,
             completed = False,
             results = None \<rparr>))))))))))"

text \<open>\<open>Array.prototype.map\<close> with a callback that may throw: the first throw ends the call.\<close>

fun map_throwing :: "('a \<Rightarrow> error_kind + 'b) \<Rightarrow> 'a list \<Rightarrow> error_kind + 'b list" where
  "map_throwing f [] = Inr []"
| "map_throwing f (x # xs) =
     and_then (f x) (\<lambda>y. and_then (map_throwing f xs) (\<lambda>ys. Inr (y # ys)))"

text \<open>
  The guard reads \<open>workoutDay.exercises\<close> only when \<open>workoutDay\<close> is truthy, so that
  read cannot throw.
\<close>

definition createExerciseSequence :: "jsval \<Rightarrow> error_kind + exercise_item list" where
  "createExerciseSequence workoutDay =
     (if \<not> truthy workoutDay then Inr []
      else and_then (js_get workoutDay ''exercises'') (\<lambda>exercises.
        if \<not> truthy exercises \<or> \<not> isArray exercises then Inr []
        else (case exercises of
                JArr es \<Rightarrow> map_throwing exercise_to_item es
              | v \<Rightarrow> Inr [])))"

text \<open>
  \<open>js_prop v k\<close> is the value of \<open>v.k\<close> where the read does not throw, and
  \<open>undefined\<close> where it does: the statements below name an exercise's properties with it.
\<close>

definition js_prop :: "jsval \<Rightarrow> string \<Rightarrow> jsval" where
  "js_prop v k = (case js_get v k of Inl e \<Rightarrow> JUndefined | Inr x \<Rightarrow> x)"

section \<open>The workout context: workoutReducer\<close>

text \<open>
  The state has the shape of \<open>initialState\<close>. The three counters of \<open>sessionStats\<close>
  are numbers; \<open>endTime\<close> and \<open>summary\<close> are absent (\<open>None\<close>) until a session ends.
  \<open>currentWorkout\<close>, \<open>feedback\<close>, \<open>summary\<close> and \<open>error\<close> are opaque to the reducer.
\<close>

record session_stats =
  completedExercises :: int
  totalReps :: int
  totalDuration :: int
  feedback :: jsval
  endTime :: "string option"
  summary :: "jsval option"

record state =
  currentWorkout :: jsval
  exerciseSequence :: "exercise_item list"
  currentExerciseIndex :: int
  activeExercise :: "exercise_item option"
  sessionStartTime :: "string option"
  sessionStats :: session_stats
  isLoading :: bool
  error :: jsval

definition initialState :: state where
  "initialState =
     \<lparr> currentWorkout = JNull,
       exerciseSequence = [],
       currentExerciseIndex = - 1,
       activeExercise = None,
       sessionStartTime = None,
       sessionStats =
         \<lparr> completedExercises = 0, totalReps = 0, totalDuration = 0,
           feedback = JObj [], endTime = None, summary = None \<rparr>,
       isLoading = False,
       error = JNull \<rparr>"

text \<open>
  The payload of \<open>UPDATE_SESSION_STATS\<close> is spread over \<open>sessionStats\<close>: a property it
  has (\<open>Some\<close>) replaces the one of the state.
\<close>

record session_stats_update =
  new_completedExercises :: "int option"
  new_totalReps :: "int option"
  new_totalDuration :: "int option"
  new_feedback :: "jsval option"
  new_endTime :: "string option"
  new_summary :: "jsval option"

text \<open>
  An action is its type and its payload, as the wrappers of \<open>WorkoutProvider\<close> dispatch
  them. \<open>OTHER ty p\<close> is an action whose \<open>type\<close> is none of \<open>ActionTypes\<close>.
\<close>

datatype action =
    SET_CURRENT_WORKOUT jsval
  | SET_EXERCISE_SEQUENCE "exercise_item list"
  | SET_CURRENT_EXERCISE int
  | COMPLETE_EXERCISE int stats
  | START_SESSION
  | END_SESSION jsval
  | UPDATE_SESSION_STATS session_stats_update
  | SET_LOADING bool
  | SET_ERROR jsval
  | RESET_STATE
  | OTHER string jsval

text \<open>
  \<open>xs[i]\<close> for a number \<open>i\<close>: the element inside the range, \<open>undefined\<close> (\<open>None\<close>)
  outside. The elements of the sequence are objects, hence truthy: \<open>xs[i] || null\<close> is
  the element or \<open>null\<close>, and \<open>if (xs[i])\<close> tests the range.
\<close>

definition js_index :: "'a list \<Rightarrow> int \<Rightarrow> 'a option" where
  "js_index xs i = (if 0 \<le> i \<and> i < int (length xs) then Some (xs ! nat i) else None)"

text \<open>\<open>n || d\<close> for a number \<open>n\<close> that may be absent.\<close>

definition num_or :: "int option \<Rightarrow> int \<Rightarrow> int" where
  "num_or v d = (case v of None \<Rightarrow> d | Some n \<Rightarrow> if n \<noteq> 0 then n else d)"

definition spread_update :: "session_stats \<Rightarrow> session_stats_update \<Rightarrow> session_stats" where
  "spread_update st u =
     \<lparr> completedExercises = (case new_completedExercises u of Some v \<Rightarrow> v | None \<Rightarrow> completedExercises st),
       totalReps = (case new_totalReps u of Some v \<Rightarrow> v | None \<Rightarrow> totalReps st),
       totalDuration = (case new_totalDuration u of Some v \<Rightarrow> v | None \<Rightarrow> totalDuration st),
       feedback = (case new_feedback u of Some v \<Rightarrow> v | None \<Rightarrow> feedback st),
       endTime = (case new_endTime u of Some v \<Rightarrow> Some v | None \<Rightarrow> endTime st),
       summary = (case new_summary u of Some v \<Rightarrow> Some v | None \<Rightarrow> summary st) \<rparr>"

text \<open>
  The reducer. \<open>now\<close> is what \<open>new Date().toISOString()\<close> returns when the reducer
  runs.
\<close>

fun workoutReducer :: "string \<Rightarrow> state \<Rightarrow> action \<Rightarrow> state" where
  "workoutReducer now state (SET_CURRENT_WORKOUT payload) =
     state\<lparr> currentWorkout := payload, error := JNull \<rparr>"
| "workoutReducer now state (SET_EXERCISE_SEQUENCE payload) =
     state\<lparr> exerciseSequence := payload, currentExerciseIndex := - 1, activeExercise := None \<rparr>"
| "workoutReducer now state (SET_CURRENT_EXERCISE payload) =
     state\<lparr> currentExerciseIndex := payload,
            activeExercise := js_index (exerciseSequence state) payload \<rparr>"
| "workoutReducer now state (COMPLETE_EXERCISE exerciseIndex stats) =
     (let updatedSequence0 = exerciseSequence state;
          updatedSequence =
            (case js_index updatedSequence0 exerciseIndex of
               Some item \<Rightarrow>
                 updatedSequence0[nat exerciseIndex :=
                   item\<lparr> completed := True, results := Some stats \<rparr>]
             | None \<Rightarrow> updatedSequence0)
      in state\<lparr> exerciseSequence := updatedSequence,
                sessionStats := (sessionStats state)
                  \<lparr> completedExercises := completedExercises (sessionStats state) + 1,
                    totalReps := totalReps (sessionStats state) + num_or (repCount stats) 0,
                    totalDuration := totalDuration (sessionStats state) + num_or (duration stats) 0 \<rparr> \<rparr>)"
| "workoutReducer now state START_SESSION =
     state\<lparr> sessionStartTime := Some now,
            sessionStats :=
              \<lparr> completedExercises = 0, totalReps = 0, totalDuration = 0,
                feedback = JObj [], endTime = None, summary = None \<rparr> \<rparr>"
| "workoutReducer now state (END_SESSION payload) =
     state\<lparr> activeExercise := None,
            sessionStats := (sessionStats state)\<lparr> endTime := Some now, summary := Some payload \<rparr> \<rparr>"
| "workoutReducer now state (UPDATE_SESSION_STATS payload) =
     state\<lparr> sessionStats := spread_update (sessionStats state) payload \<rparr>"
| "workoutReducer now state (SET_LOADING payload) =
     state\<lparr> isLoading := payload \<rparr>"
| "workoutReducer now state (SET_ERROR payload) =
     state\<lparr> error := payload, isLoading := False \<rparr>"
| "workoutReducer now state RESET_STATE = initialState"
| "workoutReducer now state (OTHER ty payload) = state"

text \<open>
  \<open>completeCurrentExercise\<close> of \<open>WorkoutProvider\<close>: it dispatches when the current index
  is not negative, and the dispatch runs the reducer on the state.
\<close>

definition completeCurrentExercise :: "string \<Rightarrow> state \<Rightarrow> stats \<Rightarrow> state" where
  "completeCurrentExercise now state st =
     (if currentExerciseIndex state \<ge> 0
      then workoutReducer now state (COMPLETE_EXERCISE (currentExerciseIndex state) st)
      else state)"

text \<open>The number of sequence items marked completed.\<close>

definition completed_items :: "state \<Rightarrow> nat" where
  "completed_items state = length (filter completed (exerciseSequence state))"

text \<open>An item as \<open>createExerciseSequence\<close> builds it for a rep-based exercise named \<open>n\<close>.\<close>

definition example_item :: "string \<Rightarrow> exercise_item" where
  "example_item n = \<lparr> item_id = n, name = JStr n, sets = JNum 1, reps = JNum 10,
      is_timed = JBool False, target_duration = JNull, target_reps = JNum 10,
      completed = False, results = None \<rparr>"

section \<open>The API client: fetchApi\<close>

subsection \<open>String conversion\<close>

text \<open>
  ToString, which \<open>new Error(x)\<close> applies to its argument: decimal digits for a number,
  the elements joined by commas for an array (\<open>null\<close> and \<open>undefined\<close> elements as the
  empty string), \<open>[object Object]\<close> for an object. The engine writes a number of
  magnitude \<open>10^21\<close> or more with an exponent, and throws for an object that has a
  \<open>toString\<close> property of its own; \<open>plain_value\<close> marks the values for which the
  conversion below is the engine's without such a proviso: \<open>undefined\<close>, \<open>null\<close>,
  booleans, strings and the integers up to \<open>2^53 - 1\<close> in magnitude.
\<close>

fun nat_to_string :: "nat \<Rightarrow> string" where
  "nat_to_string n =
     (if n < 10 then [char_of (48 + n)]
      else nat_to_string (n div 10) @ [char_of (48 + n mod 10)])"

definition int_to_string :: "int \<Rightarrow> string" where
  "int_to_string i = (if i < 0 then CHR ''-'' # nat_to_string (nat (- i)) else nat_to_string (nat i))"

fun join :: "string \<Rightarrow> string list \<Rightarrow> string" where
  "join sep [] = []"
| "join sep [x] = x"
| "join sep (x # y # ys) = x @ sep @ join sep (y # ys)"

fun js_to_string :: "jsval \<Rightarrow> string" where
  "js_to_string JUndefined = ''undefined''"
| "js_to_string JNull = ''null''"
| "js_to_string (JBool b) = (if b then ''true'' else ''false'')"
| "js_to_string (JNum n) = int_to_string n"
| "js_to_string (JStr s) = s"
| "js_to_string (JArr xs) =
     join '','' (map (\<lambda>v. if v = JUndefined \<or> v = JNull then [] else js_to_string v) xs)"
| "js_to_string (JObj kvs) = ''[object Object]''"

fun plain_value :: "jsval \<Rightarrow> bool" where
  "plain_value JUndefined = True"
| "plain_value JNull = True"
| "plain_value (JBool b) = True"
| "plain_value (JNum n) = (\<bar>n\<bar> \<le> 2 ^ 53 - 1)"
| "plain_value (JStr s) = True"
| "plain_value (JArr xs) = False"
| "plain_value (JObj kvs) = False"

fun typeof :: "jsval \<Rightarrow> string" where
  "typeof JUndefined = ''undefined''"
| "typeof JNull = ''object''"
| "typeof (JBool b) = ''boolean''"
| "typeof (JNum n) = ''number''"
| "typeof (JStr s) = ''string''"
| "typeof (JArr xs) = ''object''"
| "typeof (JObj kvs) = ''object''"

text \<open>\<open>s.includes(sub)\<close>: \<open>sub\<close> occurs in \<open>s\<close> as a contiguous piece.\<close>

fun str_includes :: "string \<Rightarrow> string \<Rightarrow> bool" where
  "str_includes [] sub = (sub = [])"
| "str_includes (c # cs) sub = (prefix sub (c # cs) \<or> str_includes cs sub)"

subsection \<open>Requests, responses and thrown errors\<close>

text \<open>
  The options of a call: \<open>opt_method\<close> is \<open>options.method\<close>, \<open>opt_headers\<close> is
  \<open>options.headers\<close>, \<open>opt_body\<close> is \<open>options.body\<close> (\<open>undefined\<close> when absent) and
  \<open>opt_rest\<close> holds every other option. The configuration handed to \<open>fetch\<close> has the same
  parts; its body is either the value of the options as it was, or the JSON text of it
  (\<open>Stringified v\<close> stands for \<open>JSON.stringify(v)\<close>).
\<close>

record fetch_options =
  opt_method :: "string option"
  opt_headers :: "(string \<times> string) list"
  opt_body :: jsval
  opt_rest :: "(string \<times> jsval) list"

datatype request_body = Passed jsval | Stringified jsval

record request_config =
  http_method :: "string option"
  headers :: "(string \<times> string) list"
  body :: request_body
  rest :: "(string \<times> jsval) list"

text \<open>
  The object \<open>{ url, ...config }\<close> that the \<open>catch\<close> block stores as \<open>error.request\<close>:
  \<open>req_url\<close> is its \<open>url\<close> property and \<open>req_config\<close> holds the properties it takes
  from the configuration.
\<close>

record error_request =
  req_url :: jsval
  req_config :: request_config

text \<open>
  A thrown error object. \<open>message\<close> is its message; the five properties that
  \<open>fetchApi\<close> adds are absent (\<open>None\<close>) until they are set. The message of a TypeError
  raised by the engine depends on the engine and is left empty.
\<close>

record js_error =
  kind :: error_kind
  message :: string
  err_status :: "int option"
  err_statusText :: "string option"
  err_data :: "jsval option"
  err_endpoint :: "string option"
  err_request :: "error_request option"

definition new_error :: "error_kind \<Rightarrow> string \<Rightarrow> js_error" where
  "new_error k msg =
     \<lparr> kind = k, message = msg, err_status = None, err_statusText = None,
       err_data = None, err_endpoint = None, err_request = None \<rparr>"

text \<open>
  A response: \<open>header n\<close> is \<open>response.headers.get(n)\<close> (\<open>None\<close> for \<open>null\<close>),
  \<open>json_body\<close> and \<open>text_body\<close> are what \<open>response.json()\<close> and \<open>response.text()\<close>
  settle to: a value, or the error they reject with.
\<close>

record response =
  ok :: bool
  status :: int
  statusText :: string
  header :: "string \<Rightarrow> string option"
  json_body :: "js_error + jsval"
  text_body :: "js_error + string"

datatype fetch_outcome = Rejects js_error | Resolves response

text \<open>
  The network: \<open>sent\<close> lists the requests made so far, and \<open>answer\<close> gives the outcome
  of the next request from the ones before it. \<open>fetch\<close> records the request and returns
  the outcome.
\<close>

record network =
  answer :: "(string \<times> request_config) list \<Rightarrow> string \<Rightarrow> request_config \<Rightarrow> fetch_outcome"
  sent :: "(string \<times> request_config) list"

definition fetch :: "string \<Rightarrow> request_config \<Rightarrow> network \<Rightarrow> fetch_outcome \<times> network" where
  "fetch url config net =
     (answer net (sent net) url config, net\<lparr> sent := sent net @ [(url, config)] \<rparr>)"

subsection \<open>fetchApi\<close>

text \<open>
  \<open>process.env.REACT_APP_API_URL || '/api'\<close>: the variable is a string or unset
  (\<open>None\<close>).
\<close>

definition API_BASE_URL :: "string option \<Rightarrow> string" where
  "API_BASE_URL env_url =
     (case env_url of Some u \<Rightarrow> if u \<noteq> [] then u else ''/api'' | None \<Rightarrow> ''/api'')"

definition request_url :: "string option \<Rightarrow> string \<Rightarrow> string" where
  "request_url env_url endpoint =
     API_BASE_URL env_url @ (if prefix ''/'' endpoint then endpoint else ''/'' @ endpoint)"

text \<open>An object spread \<open>{...base, ...props}\<close>: the later binding of a key replaces the earlier.\<close>

definition spread :: "('k \<times> 'v) list \<Rightarrow> ('k \<times> 'v) list \<Rightarrow> ('k \<times> 'v) list" where
  "spread base props = fold (\<lambda>(k, v). AList.update k v) props base"

definition request_headers :: "fetch_options \<Rightarrow> (string \<times> string) list" where
  "request_headers options = spread [(''Content-Type'', ''application/json'')] (opt_headers options)"

definition make_config :: "fetch_options \<Rightarrow> request_config" where
  "make_config options =
     \<lparr> http_method = opt_method options,
       headers = request_headers options,
       body = (if truthy (opt_body options) \<and> typeof (opt_body options) = ''object''
               then Stringified (opt_body options) else Passed (opt_body options)),
       rest = opt_rest options \<rparr>"

text \<open>
  The inner \<open>try\<close>/\<open>catch\<close> of the failure branch: the parsed body, or
  \<open>{ error: response.statusText }\<close> when \<open>response.json()\<close> rejects.
\<close>

definition errorData :: "response \<Rightarrow> jsval" where
  "errorData response =
     (case json_body response of
        Inr v \<Rightarrow> v
      | Inl e \<Rightarrow> JObj [(''error'', JStr (statusText response))])"

text \<open>
  The body of the outer \<open>try\<close> after \<open>fetch\<close> has resolved: \<open>Inl\<close> is a throw, \<open>Inr\<close> the
  returned value. Reading \<open>errorData.error\<close> throws a TypeError when the parsed body is
  \<open>null\<close>.
\<close>

definition handle_response :: "response \<Rightarrow> js_error + jsval" where
  "handle_response response =
     (if \<not> ok response then
        (case js_get (errorData response) ''error'' of
           Inl k \<Rightarrow> Inl (new_error k [])
         | Inr e \<Rightarrow>
             Inl ((new_error Error (js_to_string (js_or e (JStr ''API request failed''))))
                   \<lparr> err_status := Some (status response),
                     err_statusText := Some (statusText response),
                     err_data := Some (errorData response) \<rparr>))
      else if status response = 204 \<or> header response ''content-length'' = Some ''0'' then Inr JNull
      else (case header response ''content-type'' of
              Some contentType \<Rightarrow>
                if contentType \<noteq> [] \<and> str_includes contentType ''application/json''
                then (case json_body response of Inl e \<Rightarrow> Inl e | Inr v \<Rightarrow> Inr v)
                else (case text_body response of Inl e \<Rightarrow> Inl e | Inr t \<Rightarrow> Inr (JStr t))
            | None \<Rightarrow> (case text_body response of Inl e \<Rightarrow> Inl e | Inr t \<Rightarrow> Inr (JStr t))))"

text \<open>
  The outer \<open>catch\<close>: the request details are added and the error is thrown again. In
  \<open>{ url, ...config }\<close> the spread comes after \<open>url\<close>: when the options of the call
  have a property named \<open>url\<close> themselves (it is among \<open>rest\<close>), its value replaces the
  requested URL in the stored object.
\<close>

definition request_details :: "string \<Rightarrow> request_config \<Rightarrow> error_request" where
  "request_details url config =
     \<lparr> req_url = (case map_of (rest config) ''url'' of Some v \<Rightarrow> v | None \<Rightarrow> JStr url),
       req_config = config \<rparr>"

definition annotate :: "string \<Rightarrow> string \<Rightarrow> request_config \<Rightarrow> js_error \<Rightarrow> js_error" where
  "annotate endpoint url config e =
     e\<lparr> err_endpoint := Some endpoint, err_request := Some (request_details url config) \<rparr>"

text \<open>
  \<open>fetchApi\<close> for an endpoint that is a string, as its documentation has it. \<open>fetch\<close>
  rejects with an error object.
\<close>

definition fetchApi ::
  "string option \<Rightarrow> string \<Rightarrow> fetch_options \<Rightarrow> network \<Rightarrow> (js_error + jsval) \<times> network" where
  "fetchApi env_url endpoint options net =
     (let url = request_url env_url endpoint;
          config = make_config options;
          (outcome, net') = fetch url config net;
          tried = (case outcome of
                     Rejects e \<Rightarrow> Inl e
                   | Resolves response \<Rightarrow> handle_response response)
      in (case tried of
            Inl e \<Rightarrow> (Inl (annotate endpoint url config e), net')
          | Inr v \<Rightarrow> (Inr v, net')))"


text \<open>The method wrappers. \<open>no_options\<close> is the default \<open>options = {}\<close>.\<close>

definition no_options :: fetch_options where
  "no_options = \<lparr> opt_method = None, opt_headers = [], opt_body = JUndefined, opt_rest = [] \<rparr>"

definition get ::
  "string option \<Rightarrow> string \<Rightarrow> fetch_options \<Rightarrow> network \<Rightarrow> (js_error + jsval) \<times> network" where
  "get env_url endpoint options = fetchApi env_url endpoint (options\<lparr> opt_method := Some ''GET'' \<rparr>)"

definition post ::
  "string option \<Rightarrow> string \<Rightarrow> jsval \<Rightarrow> fetch_options \<Rightarrow> network \<Rightarrow> (js_error + jsval) \<times> network" where
  "post env_url endpoint data options =
     fetchApi env_url endpoint (options\<lparr> opt_method := Some ''POST'', opt_body := data \<rparr>)"




subsection \<open>Example networks\<close>

text \<open>
  \<open>offline\<close> rejects every request, as \<open>fetch\<close> does without a connection;
  \<open>serving r\<close> answers every request with the response \<open>r\<close>. \<open>bad_gateway\<close> is an
  error page sent over HTTP/2, where the status text is empty; \<open>truncated_json\<close> is a
  successful response that announces JSON and whose body does not parse. The others are
  a JSON error body, a JSON body, an empty answer and a plain text.
\<close>

definition offline :: network where
  "offline = \<lparr> answer = (\<lambda>before url config. Rejects (new_error TypeError ''Failed to fetch'')),
               sent = [] \<rparr>"

definition serving :: "response \<Rightarrow> network" where
  "serving r = \<lparr> answer = (\<lambda>before url config. Resolves r), sent = [] \<rparr>"

definition bad_gateway :: response where
  "bad_gateway =
     \<lparr> ok = False, status = 502, statusText = [],
       header = (\<lambda>n. if n = ''content-type'' then Some ''text/html'' else None),
       json_body = Inl (new_error SyntaxError ''Unexpected token <''),
       text_body = Inr ''<html>Bad Gateway</html>'' \<rparr>"

definition truncated_json :: response where
  "truncated_json =
     \<lparr> ok = True, status = 200, statusText = ''OK'',
       header = (\<lambda>n. if n = ''content-type'' then Some ''application/json'' else None),
       json_body = Inl (new_error SyntaxError ''Unexpected end of JSON input''),
       text_body = Inr [] \<rparr>"

definition not_found :: response where
  "not_found =
     \<lparr> ok = False, status = 404, statusText = ''Not Found'',
       header = (\<lambda>n. if n = ''content-type'' then Some ''application/json'' else None),
       json_body = Inr (JObj [(''error'', JStr ''No active exercise'')]),
       text_body = Inr ''{error: No active exercise}'' \<rparr>"

definition exercise_data :: response where
  "exercise_data =
     \<lparr> ok = True, status = 200, statusText = ''OK'',
       header = (\<lambda>n. if n = ''content-type'' then Some ''application/json; charset=utf-8'' else None),
       json_body = Inr (JObj [(''rep_count'', JNum 7)]),
       text_body = Inr ''{rep_count: 7}'' \<rparr>"

definition no_content :: response where
  "no_content =
     \<lparr> ok = True, status = 204, statusText = ''No Content'',
       header = (\<lambda>n. None),
       json_body = Inl (new_error SyntaxError ''Unexpected end of JSON input''),
       text_body = Inr [] \<rparr>"

definition plain_text :: response where
  "plain_text =
     \<lparr> ok = True, status = 200, statusText = ''OK'',
       header = (\<lambda>n. if n = ''content-type'' then Some ''text/plain'' else None),
       json_body = Inl (new_error SyntaxError ''Unexpected token r''),
       text_body = Inr ''ready'' \<rparr>"

section \<open>The video and exercise services\<close>

text \<open>
  A default parameter \<open>(params = d)\<close> takes \<open>d\<close> when the argument is \<open>undefined\<close>.
\<close>

definition default_param :: "jsval \<Rightarrow> jsval \<Rightarrow> jsval" where
  "default_param v d = (if v = JUndefined then d else v)"

definition startVideoFeed :: "string option \<Rightarrow> jsval \<Rightarrow> network \<Rightarrow> (js_error + jsval) \<times> network" where
  "startVideoFeed env_url params =
     post env_url ''video/start'' (default_param params (JObj [(''camera_index'', JNum 0)])) no_options"

definition stopVideoFeed :: "string option \<Rightarrow> network \<Rightarrow> (js_error + jsval) \<times> network" where
  "stopVideoFeed env_url = post env_url ''video/stop'' (JObj []) no_options"

definition getVideoStatus :: "string option \<Rightarrow> network \<Rightarrow> (js_error + jsval) \<times> network" where
  "getVideoStatus env_url = get env_url ''video/status'' no_options"

definition getCurrentFrame :: "string option \<Rightarrow> network \<Rightarrow> (js_error + jsval) \<times> network" where
  "getCurrentFrame env_url = get env_url ''video/frame'' no_options"

definition getVideoFeedUrl :: string where
  "getVideoFeedUrl = ''/api/video/feed''"

definition startExercise :: "string option \<Rightarrow> jsval \<Rightarrow> network \<Rightarrow> (js_error + jsval) \<times> network" where
  "startExercise env_url params = post env_url ''exercise/start'' params no_options"

definition stopExercise :: "string option \<Rightarrow> network \<Rightarrow> (js_error + jsval) \<times> network" where
  "stopExercise env_url = post env_url ''exercise/stop'' (JObj []) no_options"

definition getExerciseData :: "string option \<Rightarrow> network \<Rightarrow> (js_error + jsval) \<times> network" where
  "getExerciseData env_url = get env_url ''exercise/data'' no_options"

definition getExerciseStats :: "string option \<Rightarrow> network \<Rightarrow> (js_error + jsval) \<times> network" where
  "getExerciseStats env_url = get env_url ''exercise/stats'' no_options"

definition getExerciseHistory :: "string option \<Rightarrow> network \<Rightarrow> (js_error + jsval) \<times> network" where
  "getExerciseHistory env_url = get env_url ''exercise/history'' no_options"

text \<open>
  \<open>getCommonFeedback\<close> builds a query string with \<open>URLSearchParams\<close>: \<open>append\<close> converts
  the value to a string, and \<open>toString\<close> joins \<open>name=value\<close> pairs with \<open>&\<close>, each part
  percent-encoded by the browser (\<open>urlencode\<close>, a parameter). Reading a property of a
  \<open>null\<close> argument throws before any request is made.
\<close>

definition getCommonFeedback ::
  "(string \<Rightarrow> string) \<Rightarrow> string option \<Rightarrow> jsval \<Rightarrow> network \<Rightarrow> (js_error + jsval) \<times> network" where
  "getCommonFeedback urlencode env_url params0 net =
     (let params = default_param params0 (JObj []) in
      case js_get params ''exercise'' of
        Inl k \<Rightarrow> (Inl (new_error k []), net)
      | Inr exercise \<Rightarrow>
          (case js_get params ''period'' of
             Inl k \<Rightarrow> (Inl (new_error k []), net)
           | Inr period \<Rightarrow>
               (let queryParams =
                      (if truthy exercise then [(''exercise'', js_to_string exercise)] else [])
                      @ (if truthy period then [(''period'', js_to_string period)] else []);
                    queryString =
                      join ''&'' (map (\<lambda>(k, v). urlencode k @ ''='' @ urlencode v) queryParams)
                in get env_url
                     (''exercise/common_feedback''
                        @ (if queryString \<noteq> [] then ''?'' @ queryString else []))
                     no_options net)))"

text \<open>
  The requests a call adds to the network, and the calls of the two services for given
  arguments.
\<close>

definition requests_of :: "(network \<Rightarrow> 'r \<times> network) \<Rightarrow> network \<Rightarrow> (string \<times> request_config) list" where
  "requests_of call net = drop (length (sent net)) (sent (snd (call net)))"

definition video_service ::
  "string option \<Rightarrow> jsval \<Rightarrow> (network \<Rightarrow> (js_error + jsval) \<times> network) list" where
  "video_service env_url params =
     [startVideoFeed env_url params, stopVideoFeed env_url, getVideoStatus env_url,
      getCurrentFrame env_url]"

definition exercise_service ::
  "(string \<Rightarrow> string) \<Rightarrow> string option \<Rightarrow> jsval \<Rightarrow> jsval
     \<Rightarrow> (network \<Rightarrow> (js_error + jsval) \<times> network) list" where
  "exercise_service urlencode env_url params feedback_params =
     [startExercise env_url params, stopExercise env_url, getExerciseData env_url,
      getExerciseStats env_url, getExerciseHistory env_url,
      getCommonFeedback urlencode env_url feedback_params]"

section \<open>Properties of createExerciseSequence\<close>

subsection \<open>The regular expression replacement\<close>

lemma underscore_runs_from_True:
  "underscore_runs_from True cs = underscore_runs_from False (dropWhile is_space cs)"
  by (induction cs) auto

lemma replace_space_runs_spec: "replace_space_runs s = underscore_runs s"
proof -
  have "replace_space_runs s = underscore_runs_from False s"
  proof (induction s rule: replace_space_runs.induct)
    case 1
    show ?case by simp
  next
    case (2 c cs)
    show ?case
    proof (cases "is_space c")
      case True
      with 2 show ?thesis
        by (simp add: underscore_runs_from_True)
    next
      case False
      with 2 show ?thesis by simp
    qed
  qed
  then show ?thesis by (simp add: underscore_runs_def)
qed

lemma replace_space_runs_no_space:
  "c \<in> set (replace_space_runs s) \<Longrightarrow> \<not> is_space c"
proof (induction s rule: replace_space_runs.induct)
  case 1
  then show ?case by simp
next
  case (2 d ds)
  have "\<not> is_space CHR ''_''" by (simp add: is_space_def)
  with 2 show ?case by (auto split: if_splits)
qed

subsection \<open>Property reads\<close>

lemma js_get_total: "js_get e k = Inr v \<Longrightarrow> js_get e k' = Inr (js_prop e k')"
  by (cases e) (auto simp: js_prop_def)

lemma js_prop_get: "js_prop e k = JStr n \<Longrightarrow> js_get e k = Inr (JStr n)"
  by (cases "js_get e k") (auto simp: js_prop_def)

lemma js_prop_arr_get: "js_prop e k = JArr xs \<Longrightarrow> js_get e k = Inr (JArr xs) \<and> truthy e"
  by (cases e) (auto simp: js_prop_def)

subsection \<open>One exercise\<close>

lemma exercise_to_item_named:
  assumes "js_get e ''name'' = Inr (JStr n)"
  shows "exercise_to_item e =
     Inr \<lparr> item_id = underscore_runs (toLowerCase n),
           name = JStr n,
           sets = js_or (js_prop e ''sets'') (JNum 1),
           reps = js_or (js_prop e ''reps'') (JNum 10),
           is_timed = js_or (js_prop e ''is_timed'') (JBool False),
           target_duration = (if truthy (js_prop e ''is_timed'') then js_prop e ''reps'' else JNull),
           target_reps = (if truthy (js_prop e ''is_timed'') then JNull else js_prop e ''reps''),
           completed = False,
           results = None \<rparr>"
proof -
  have g: "\<And>k. js_get e k = Inr (js_prop e k)"
    using assms js_get_total by blast
  show ?thesis
    using assms by (simp add: exercise_to_item_def and_then_def g replace_space_runs_spec)
qed

lemma exercise_to_item_Inr:
  assumes "exercise_to_item e = Inr item"
  shows "\<exists>n. js_get e ''name'' = Inr (JStr n)"
proof (cases "js_get e ''name''")
  case (Inl a)
  with assms show ?thesis by (simp add: exercise_to_item_def and_then_def)
next
  case (Inr v)
  with assms show ?thesis
    by (cases v) (simp_all add: exercise_to_item_def and_then_def)
qed

text \<open>An exercise whose name is not a string makes the callback throw a TypeError.\<close>

lemma exercise_to_item_unnamed:
  assumes "\<And>n. js_get e ''name'' \<noteq> Inr (JStr n)"
  shows "exercise_to_item e = Inl TypeError"
proof (cases "js_get e ''name''")
  case (Inl a)
  then have "a = TypeError" by (cases e) auto
  with Inl show ?thesis by (simp add: exercise_to_item_def and_then_def)
next
  case (Inr v)
  with assms have "call_toLowerCase v = Inl TypeError" by (cases v) auto
  with Inr show ?thesis by (simp add: exercise_to_item_def and_then_def)
qed

subsection \<open>The mapped list\<close>

lemma map_throwing_Inr:
  "map_throwing f xs = Inr ys \<Longrightarrow>
     length ys = length xs \<and> (\<forall>i<length xs. f (xs ! i) = Inr (ys ! i))"
proof (induction xs arbitrary: ys)
  case Nil
  then show ?case by simp
next
  case (Cons x xs)
  from Cons.prems obtain y ys' where
    fx: "f x = Inr y" and rest: "map_throwing f xs = Inr ys'" and ys: "ys = y # ys'"
    by (auto simp: and_then_def split: sum.splits)
  from Cons.IH [OF rest] fx ys show ?case
    by (auto simp: nth_Cons split: nat.splits)
qed

lemma map_throwing_total:
  "(\<forall>x\<in>set xs. \<exists>y. f x = Inr y) \<Longrightarrow> \<exists>ys. map_throwing f xs = Inr ys"
  by (induction xs) (auto simp: and_then_def)

lemma map_throwing_throws:
  "x \<in> set xs \<Longrightarrow> f x = Inl e \<Longrightarrow> \<exists>e'. map_throwing f xs = Inl e'"
  by (induction xs) (auto simp: and_then_def split: sum.splits)

lemma createExerciseSequence_array:
  assumes "js_prop day ''exercises'' = JArr es"
  shows "createExerciseSequence day = map_throwing exercise_to_item es"
  using js_prop_arr_get [OF assms]
  by (simp add: createExerciseSequence_def and_then_def)

lemma createExerciseSequence_no_array:
  assumes "\<not> isArray (js_prop day ''exercises'')"
  shows "createExerciseSequence day = Inr []"
proof (cases "js_get day ''exercises''")
  case (Inl a)
  then have "\<not> truthy day" by (cases day) auto
  then show ?thesis by (simp add: createExerciseSequence_def)
next
  case (Inr v)
  with assms have "\<not> isArray v" by (simp add: js_prop_def)
  with Inr show ?thesis by (simp add: createExerciseSequence_def and_then_def)
qed

text \<open>
  When some exercise of the day has no string for a name, the whole call throws: no list
  is returned.
\<close>

lemma createExerciseSequence_throws:
  assumes "js_prop day ''exercises'' = JArr es" and "e \<in> set es"
    and "\<And>n. js_get e ''name'' \<noteq> Inr (JStr n)"
  shows "\<exists>err. createExerciseSequence day = Inl err"
  using assms map_throwing_throws [of e es exercise_to_item TypeError]
  by (simp add: createExerciseSequence_array exercise_to_item_unnamed)

subsection \<open>The sequence of a day\<close>

text \<open>
  Claim C2, as the code has it. \<open>createExerciseSequence\<close> returns \<open>[]\<close> when the day is
  \<open>null\<close> or its \<open>exercises\<close> property is not an array. When \<open>exercises\<close> is an array
  and every exercise in it has a string for a name, it returns a list of the same length
  and in the same order (item \<open>i\<close> carries the name of exercise \<open>i\<close>), where every item
  has \<open>completed\<close> false, an \<open>id\<close> that is the name in lower case with every run of white
  space replaced by one \<open>_\<close>, \<open>sets\<close> equal to the exercise's \<open>sets\<close> when that is truthy
  and 1 otherwise, and \<open>reps\<close> equal to the exercise's \<open>reps\<close> when that is truthy and
  10 otherwise.
\<close>

theorem createExerciseSequence_sequence:
  "(day = JNull \<or> \<not> isArray (js_prop day ''exercises'') \<longrightarrow> createExerciseSequence day = Inr [])
   \<and> (js_prop day ''exercises'' = JArr es
        \<and> (\<forall>e\<in>set es. \<exists>n. js_prop e ''name'' = JStr n) \<longrightarrow>
      (\<exists>items. createExerciseSequence day = Inr items
         \<and> length items = length es
         \<and> (\<forall>i<length es.
               name (items ! i) = js_prop (es ! i) ''name''
             \<and> (\<exists>n. js_prop (es ! i) ''name'' = JStr n
                    \<and> item_id (items ! i) = underscore_runs (toLowerCase n))
             \<and> completed (items ! i) = False
             \<and> sets (items ! i) =
                 (if truthy (js_prop (es ! i) ''sets'') then js_prop (es ! i) ''sets'' else JNum 1)
             \<and> reps (items ! i) =
                 (if truthy (js_prop (es ! i) ''reps'') then js_prop (es ! i) ''reps'' else JNum 10))))"
proof (intro conjI impI)
  assume "day = JNull \<or> \<not> isArray (js_prop day ''exercises'')"
  then have "\<not> isArray (js_prop day ''exercises'')"
    by (auto simp: js_prop_def)
  then show "createExerciseSequence day = Inr []"
    by (rule createExerciseSequence_no_array)
next
  assume a: "js_prop day ''exercises'' = JArr es
     \<and> (\<forall>e\<in>set es. \<exists>n. js_prop e ''name'' = JStr n)"
  then have named: "\<forall>e\<in>set es. \<exists>n. js_get e ''name'' = Inr (JStr n)"
    using js_prop_get by blast
  then have "\<forall>e\<in>set es. \<exists>y. exercise_to_item e = Inr y"
    using exercise_to_item_named by blast
  then obtain items where items: "map_throwing exercise_to_item es = Inr items"
    using map_throwing_total by blast
  note shape = map_throwing_Inr [OF items]
  have each: "name (items ! i) = js_prop (es ! i) ''name''
       \<and> (\<exists>n. js_prop (es ! i) ''name'' = JStr n
              \<and> item_id (items ! i) = underscore_runs (toLowerCase n))
       \<and> completed (items ! i) = False
       \<and> sets (items ! i) =
           (if truthy (js_prop (es ! i) ''sets'') then js_prop (es ! i) ''sets'' else JNum 1)
       \<and> reps (items ! i) =
           (if truthy (js_prop (es ! i) ''reps'') then js_prop (es ! i) ''reps'' else JNum 10)"
    if i: "i < length es" for i
  proof -
    from i named obtain n where n: "js_get (es ! i) ''name'' = Inr (JStr n)"
      by (meson nth_mem)
    then have p: "js_prop (es ! i) ''name'' = JStr n"
      by (simp add: js_prop_def)
    from shape i have "exercise_to_item (es ! i) = Inr (items ! i)" by blast
    with exercise_to_item_named [OF n] p show ?thesis
      by (auto simp: js_or_def)
  qed
  from a items shape each
  show "\<exists>items. createExerciseSequence day = Inr items
         \<and> length items = length es
         \<and> (\<forall>i<length es.
               name (items ! i) = js_prop (es ! i) ''name''
             \<and> (\<exists>n. js_prop (es ! i) ''name'' = JStr n
                    \<and> item_id (items ! i) = underscore_runs (toLowerCase n))
             \<and> completed (items ! i) = False
             \<and> sets (items ! i) =
                 (if truthy (js_prop (es ! i) ''sets'') then js_prop (es ! i) ''sets'' else JNum 1)
             \<and> reps (items ! i) =
                 (if truthy (js_prop (es ! i) ''reps'') then js_prop (es ! i) ''reps'' else JNum 10))"
    by (auto simp: createExerciseSequence_array)
qed

text \<open>
  The theorem at the \<open>null\<close> day, and at a day with one exercise, \<open>Push  Up\<close> with
  three sets and no \<open>reps\<close>.
\<close>

theorem createExerciseSequence_sequence_witness:
  "createExerciseSequence JNull = Inr []
   \<and> (\<exists>items. createExerciseSequence
         (JObj [(''exercises'', JArr [JObj [(''name'', JStr ''Push  Up''), (''sets'', JNum 3)]])])
           = Inr items
        \<and> length items = 1
        \<and> name (items ! 0) = JStr ''Push  Up''
        \<and> item_id (items ! 0) = ''push_up''
        \<and> completed (items ! 0) = False
        \<and> sets (items ! 0) = JNum 3
        \<and> reps (items ! 0) = JNum 10)"
proof -
  let ?e = "JObj [(''name'', JStr ''Push  Up''), (''sets'', JNum 3)]"
  let ?day = "JObj [(''exercises'', JArr [?e])]"
  have h: "js_prop ?day ''exercises'' = JArr [?e]
      \<and> (\<forall>e\<in>set [?e]. \<exists>n. js_prop e ''name'' = JStr n)"
    by (simp add: js_prop_def)
  have l: "underscore_runs (toLowerCase ''Push  Up'') = ''push_up''"
    by code_simp
  from createExerciseSequence_sequence [of JNull "[]"]
  have first: "createExerciseSequence JNull = Inr []" by simp
  from createExerciseSequence_sequence [of ?day "[?e]"] h
  obtain items where "createExerciseSequence ?day = Inr items" "length items = 1"
    "name (items ! 0) = JStr ''Push  Up''"
    "item_id (items ! 0) = underscore_runs (toLowerCase ''Push  Up'')"
    "completed (items ! 0) = False" "sets (items ! 0) = JNum 3" "reps (items ! 0) = JNum 10"
    by (auto simp: js_prop_def)
  with first l show ?thesis by auto
qed

text \<open>
  The claim as it was stated promises a list for every day whose \<open>exercises\<close> is an
  array. For a day whose only exercise has \<open>sets\<close> and \<open>reps\<close> but no \<open>name\<close>,
  \<open>exercise.name.toLowerCase()\<close> throws and no list is returned.
\<close>

theorem createExerciseSequence_unnamed_counterexample:
  "js_prop (JObj [(''exercises'', JArr [JObj [(''sets'', JNum 3), (''reps'', JNum 12)]])]) ''exercises''
     = JArr [JObj [(''sets'', JNum 3), (''reps'', JNum 12)]]
   \<and> createExerciseSequence
        (JObj [(''exercises'', JArr [JObj [(''sets'', JNum 3), (''reps'', JNum 12)]])])
     = Inl TypeError"
  by (simp add: js_prop_def createExerciseSequence_def and_then_def exercise_to_item_def)

subsection \<open>The targets of an item\<close>

text \<open>
  What the two conditional expressions compute for an element of a returned list: the
  one of \<open>target_duration\<close> and \<open>target_reps\<close> that the truthiness of \<open>is_timed\<close>
  selects is the exercise's \<open>reps\<close> property, and the other is \<open>null\<close>.
\<close>

lemma createExerciseSequence_targets:
  assumes "createExerciseSequence day = Inr items"
    and "js_prop day ''exercises'' = JArr es"
    and "i < length items"
  shows "(if truthy (js_prop (es ! i) ''is_timed'')
          then target_duration (items ! i) = js_prop (es ! i) ''reps''
             \<and> target_reps (items ! i) = JNull
          else target_reps (items ! i) = js_prop (es ! i) ''reps''
             \<and> target_duration (items ! i) = JNull)"
proof -
  from assms(1,2) have m: "map_throwing exercise_to_item es = Inr items"
    by (simp add: createExerciseSequence_array)
  note shape = map_throwing_Inr [OF m]
  with assms(3) have item: "exercise_to_item (es ! i) = Inr (items ! i)" by simp
  then obtain n where "js_get (es ! i) ''name'' = Inr (JStr n)"
    using exercise_to_item_Inr by blast
  from exercise_to_item_named [OF this] item show ?thesis
    by auto
qed

text \<open>
  Claim C9 says that every element of a returned list has exactly one of
  \<open>target_duration\<close> and \<open>target_reps\<close> that is not \<open>null\<close>. The code does not keep
  this: for a day whose only exercise is a squat with three sets and \<open>reps\<close> \<open>null\<close>,
  the item has \<open>reps\<close> 10, from the default \<open>exercise.reps || 10\<close>, while both
  \<open>target_duration\<close> and \<open>target_reps\<close> are \<open>null\<close>, because the targets read
  \<open>exercise.reps\<close> without that default.
\<close>

theorem createExerciseSequence_targets_both_null:
  "createExerciseSequence
      (JObj [(''exercises'', JArr [JObj [(''name'', JStr ''Squat''), (''sets'', JNum 3),
                                         (''reps'', JNull)]])])
     = Inr [\<lparr> item_id = ''squat'', name = JStr ''Squat'', sets = JNum 3, reps = JNum 10,
               is_timed = JBool False, target_duration = JNull, target_reps = JNull,
               completed = False, results = None \<rparr>]"
proof -
  have "replace_space_runs (toLowerCase ''Squat'') = ''squat''"
    by code_simp
  then show ?thesis
    by (simp add: createExerciseSequence_def and_then_def exercise_to_item_def js_or_def)
qed

text \<open>The two targets of that item, read off the returned list.\<close>

theorem createExerciseSequence_targets_both_null_witness:
  "map (\<lambda>item. (reps item, target_duration item, target_reps item))
     (case createExerciseSequence
        (JObj [(''exercises'', JArr [JObj [(''name'', JStr ''Squat''), (''sets'', JNum 3),
                                           (''reps'', JNull)]])])
      of Inr items \<Rightarrow> items | Inl e \<Rightarrow> [])
   = [(JNum 10, JNull, JNull)]"
  using createExerciseSequence_targets_both_null by simp

section \<open>Properties of workoutReducer\<close>

lemma js_index_None: "js_index xs i = None \<longleftrightarrow> \<not> (0 \<le> i \<and> i < int (length xs))"
  by (auto simp: js_index_def)

lemma num_or_zero: "num_or v 0 = (case v of None \<Rightarrow> 0 | Some n \<Rightarrow> n)"
  by (simp add: num_or_def split: option.splits)

subsection \<open>What an action leaves alone\<close>

text \<open>
  Claim C3. For every state and payload: \<open>SET_CURRENT_WORKOUT\<close> leaves every field but
  \<open>currentWorkout\<close> and \<open>error\<close> as it was; \<open>SET_EXERCISE_SEQUENCE\<close> every field but
  \<open>exerciseSequence\<close>, \<open>currentExerciseIndex\<close> and \<open>activeExercise\<close>;
  \<open>SET_CURRENT_EXERCISE\<close> every field but \<open>currentExerciseIndex\<close> and \<open>activeExercise\<close>;
  \<open>SET_LOADING\<close> every field but \<open>isLoading\<close>; \<open>SET_ERROR\<close> every field but \<open>error\<close>
  and \<open>isLoading\<close>; and an action of an unknown type returns the state as it was.
\<close>

theorem workoutReducer_frame:
  "(let t = workoutReducer now s (SET_CURRENT_WORKOUT w)
    in exerciseSequence t = exerciseSequence s
     \<and> currentExerciseIndex t = currentExerciseIndex s
     \<and> activeExercise t = activeExercise s
     \<and> sessionStartTime t = sessionStartTime s
     \<and> sessionStats t = sessionStats s
     \<and> isLoading t = isLoading s)
   \<and> (let t = workoutReducer now s (SET_EXERCISE_SEQUENCE xs)
      in currentWorkout t = currentWorkout s
       \<and> sessionStartTime t = sessionStartTime s
       \<and> sessionStats t = sessionStats s
       \<and> isLoading t = isLoading s
       \<and> error t = error s)
   \<and> (let t = workoutReducer now s (SET_CURRENT_EXERCISE i)
      in currentWorkout t = currentWorkout s
       \<and> exerciseSequence t = exerciseSequence s
       \<and> sessionStartTime t = sessionStartTime s
       \<and> sessionStats t = sessionStats s
       \<and> isLoading t = isLoading s
       \<and> error t = error s)
   \<and> (let t = workoutReducer now s (SET_LOADING b)
      in currentWorkout t = currentWorkout s
       \<and> exerciseSequence t = exerciseSequence s
       \<and> currentExerciseIndex t = currentExerciseIndex s
       \<and> activeExercise t = activeExercise s
       \<and> sessionStartTime t = sessionStartTime s
       \<and> sessionStats t = sessionStats s
       \<and> error t = error s)
   \<and> (let t = workoutReducer now s (SET_ERROR e)
      in currentWorkout t = currentWorkout s
       \<and> exerciseSequence t = exerciseSequence s
       \<and> currentExerciseIndex t = currentExerciseIndex s
       \<and> activeExercise t = activeExercise s
       \<and> sessionStartTime t = sessionStartTime s
       \<and> sessionStats t = sessionStats s)
   \<and> workoutReducer now s (OTHER ty p) = s"
  by (simp add: Let_def)

text \<open>
  The theorem at the initial state while loading: \<open>SET_ERROR\<close> changes \<open>error\<close> and
  \<open>isLoading\<close> only, and an action of type \<open>PING\<close> changes nothing.
\<close>

theorem workoutReducer_frame_witness:
  "workoutReducer ''t'' (initialState\<lparr> isLoading := True \<rparr>) (SET_ERROR (JStr ''offline''))
     = initialState\<lparr> error := JStr ''offline'' \<rparr>
   \<and> workoutReducer ''t'' initialState (OTHER ''PING'' JNull) = initialState"
  using workoutReducer_frame [of "''t''" "initialState\<lparr> isLoading := True \<rparr>" JNull "[]" 0 True
      "JStr ''offline''" "''PING''" JNull]
  by (simp add: Let_def initialState_def)

subsection \<open>Completing an exercise\<close>

text \<open>
  Claim C4. For every state and every \<open>COMPLETE_EXERCISE\<close> action whose \<open>exerciseIndex\<close>
  is a valid index of the sequence: the item at that index is the old item with
  \<open>completed\<close> true and \<open>results\<close> the action's \<open>stats\<close>, every other item is
  unchanged, \<open>completedExercises\<close> grows by 1, \<open>totalReps\<close> by \<open>stats.repCount\<close> and
  \<open>totalDuration\<close> by \<open>stats.duration\<close> (by 0 when the property is absent).
\<close>

theorem workoutReducer_complete_valid:
  assumes "0 \<le> i" and "i < int (length (exerciseSequence s))"
  shows "let t = workoutReducer now s (COMPLETE_EXERCISE i st)
         in length (exerciseSequence t) = length (exerciseSequence s)
          \<and> exerciseSequence t ! nat i =
              (exerciseSequence s ! nat i)\<lparr> completed := True, results := Some st \<rparr>
          \<and> completed (exerciseSequence t ! nat i) = True
          \<and> results (exerciseSequence t ! nat i) = Some st
          \<and> (\<forall>j<length (exerciseSequence s). j \<noteq> nat i \<longrightarrow>
                exerciseSequence t ! j = exerciseSequence s ! j)
          \<and> completedExercises (sessionStats t) = completedExercises (sessionStats s) + 1
          \<and> totalReps (sessionStats t) =
              totalReps (sessionStats s) + (case repCount st of Some n \<Rightarrow> n | None \<Rightarrow> 0)
          \<and> totalDuration (sessionStats t) =
              totalDuration (sessionStats s) + (case duration st of Some n \<Rightarrow> n | None \<Rightarrow> 0)"
  using assms by (simp add: Let_def js_index_def num_or_zero)

text \<open>
  The theorem at a sequence of two items of which the second is completed with 12 reps
  and no duration.
\<close>

theorem workoutReducer_complete_valid_witness:
  "(let st = \<lparr> repCount = Some 12, duration = None, other_stats = [] \<rparr>;
        s = initialState\<lparr> exerciseSequence := [example_item ''squat'', example_item ''plank''] \<rparr>;
        t = workoutReducer ''t'' s (COMPLETE_EXERCISE 1 st)
    in length (exerciseSequence t) = 2
     \<and> exerciseSequence t ! 0 = example_item ''squat''
     \<and> exerciseSequence t ! 1 = (example_item ''plank'')\<lparr> completed := True, results := Some st \<rparr>
     \<and> completedExercises (sessionStats t) = 1
     \<and> totalReps (sessionStats t) = 12
     \<and> totalDuration (sessionStats t) = 0)"
proof -
  let ?st = "\<lparr> repCount = Some 12, duration = None, other_stats = [] \<rparr>"
  let ?s = "initialState\<lparr> exerciseSequence := [example_item ''squat'', example_item ''plank''] \<rparr>"
  let ?t = "workoutReducer ''t'' ?s (COMPLETE_EXERCISE 1 ?st)"
  have a: "(0::int) \<le> 1" and b: "1 < int (length (exerciseSequence ?s))"
    by simp_all
  note w = workoutReducer_complete_valid [OF a b, of "''t''" ?st, unfolded Let_def]
  from w have others: "\<forall>j<length (exerciseSequence ?s). j \<noteq> nat 1 \<longrightarrow>
      exerciseSequence ?t ! j = exerciseSequence ?s ! j"
    by blast
  then have zero: "exerciseSequence ?t ! 0 = example_item ''squat''"
    by simp
  have stats0: "completedExercises (sessionStats ?s) = 0" "totalReps (sessionStats ?s) = 0"
    "totalDuration (sessionStats ?s) = 0"
    by (simp_all add: initialState_def)
  from w have "length (exerciseSequence ?t) = 2"
    and "exerciseSequence ?t ! 1 = (example_item ''plank'')\<lparr> completed := True, results := Some ?st \<rparr>"
    and "completedExercises (sessionStats ?t) = 1"
    and "totalReps (sessionStats ?t) = 12"
    and "totalDuration (sessionStats ?t) = 0"
    using stats0 by simp_all
  with zero show ?thesis
    unfolding Let_def by blast
qed

text \<open>
  Claim C10. For every state and every \<open>COMPLETE_EXERCISE\<close> action whose index is
  outside the sequence (the initial index \<open>-1\<close> is), the reducer leaves the sequence
  as it was and still adds 1 to \<open>completedExercises\<close>, and the values of \<open>stats\<close> to
  \<open>totalReps\<close> and \<open>totalDuration\<close>. \<open>completeCurrentExercise\<close> does nothing when the
  current index is negative, and dispatches when it is at or beyond the length of the
  sequence: the count grows and no item is marked. So \<open>completedExercises\<close> can exceed
  the number of items marked completed: after a sequence without completed items is
  set, the current index is put to its length and the current exercise is completed, the
  count is 1 and no item is marked.
\<close>

theorem workoutReducer_complete_out_of_range:
  "(\<not> (0 \<le> i \<and> i < int (length (exerciseSequence s))) \<longrightarrow>
      (let t = workoutReducer now s (COMPLETE_EXERCISE i st)
       in exerciseSequence t = exerciseSequence s
        \<and> completedExercises (sessionStats t) = completedExercises (sessionStats s) + 1
        \<and> totalReps (sessionStats t) =
            totalReps (sessionStats s) + (case repCount st of Some n \<Rightarrow> n | None \<Rightarrow> 0)
        \<and> totalDuration (sessionStats t) =
            totalDuration (sessionStats s) + (case duration st of Some n \<Rightarrow> n | None \<Rightarrow> 0)))
   \<and> (currentExerciseIndex s < 0 \<longrightarrow> completeCurrentExercise now s st = s)
   \<and> (currentExerciseIndex s \<ge> int (length (exerciseSequence s)) \<longrightarrow>
        (let t = completeCurrentExercise now s st
         in exerciseSequence t = exerciseSequence s
          \<and> completed_items t = completed_items s
          \<and> completedExercises (sessionStats t) = completedExercises (sessionStats s) + 1))
   \<and> ((\<forall>x\<in>set xs. \<not> completed x) \<longrightarrow>
        (let s1 = workoutReducer now initialState (SET_EXERCISE_SEQUENCE xs);
             s2 = workoutReducer now s1 (SET_CURRENT_EXERCISE (int (length xs)));
             t = completeCurrentExercise now s2 st
         in completed_items t = 0 \<and> completedExercises (sessionStats t) = 1))"
proof (intro conjI impI)
  assume "\<not> (0 \<le> i \<and> i < int (length (exerciseSequence s)))"
  then have "js_index (exerciseSequence s) i = None"
    by (simp add: js_index_None)
  then show "let t = workoutReducer now s (COMPLETE_EXERCISE i st)
       in exerciseSequence t = exerciseSequence s
        \<and> completedExercises (sessionStats t) = completedExercises (sessionStats s) + 1
        \<and> totalReps (sessionStats t) =
            totalReps (sessionStats s) + (case repCount st of Some n \<Rightarrow> n | None \<Rightarrow> 0)
        \<and> totalDuration (sessionStats t) =
            totalDuration (sessionStats s) + (case duration st of Some n \<Rightarrow> n | None \<Rightarrow> 0)"
    by (simp add: Let_def num_or_zero)
next
  assume "currentExerciseIndex s < 0"
  then show "completeCurrentExercise now s st = s"
    by (simp add: completeCurrentExercise_def)
next
  assume a: "int (length (exerciseSequence s)) \<le> currentExerciseIndex s"
  then have "js_index (exerciseSequence s) (currentExerciseIndex s) = None"
    by (simp add: js_index_None)
  moreover from a have "0 \<le> currentExerciseIndex s" by linarith
  ultimately show "let t = completeCurrentExercise now s st
         in exerciseSequence t = exerciseSequence s
          \<and> completed_items t = completed_items s
          \<and> completedExercises (sessionStats t) = completedExercises (sessionStats s) + 1"
    by (simp add: completeCurrentExercise_def Let_def completed_items_def)
next
  assume "\<forall>x\<in>set xs. \<not> completed x"
  then have "filter completed xs = []" by (simp add: filter_empty_conv)
  then show "let s1 = workoutReducer now initialState (SET_EXERCISE_SEQUENCE xs);
             s2 = workoutReducer now s1 (SET_CURRENT_EXERCISE (int (length xs)));
             t = completeCurrentExercise now s2 st
         in completed_items t = 0 \<and> completedExercises (sessionStats t) = 1"
    by (simp add: completeCurrentExercise_def Let_def completed_items_def js_index_def
        initialState_def)
qed

text \<open>
  The theorem at the initial state with index \<open>-1\<close>, through the reducer and through
  \<open>completeCurrentExercise\<close>; at an empty sequence with the current index 0; and at a
  sequence of one item with the current index 1.
\<close>

theorem workoutReducer_complete_out_of_range_witness:
  "(let st = \<lparr> repCount = Some 12, duration = Some 30, other_stats = [] \<rparr>;
        t = workoutReducer ''t'' initialState (COMPLETE_EXERCISE (- 1) st)
    in exerciseSequence t = []
     \<and> completedExercises (sessionStats t) = 1
     \<and> totalReps (sessionStats t) = 12
     \<and> totalDuration (sessionStats t) = 30)
   \<and> completeCurrentExercise ''t'' initialState
        \<lparr> repCount = Some 12, duration = Some 30, other_stats = [] \<rparr> = initialState
   \<and> (let st = \<lparr> repCount = None, duration = None, other_stats = [] \<rparr>;
          t = completeCurrentExercise ''t'' (initialState\<lparr> currentExerciseIndex := 0 \<rparr>) st
      in exerciseSequence t = [] \<and> completedExercises (sessionStats t) = 1)
   \<and> (let st = \<lparr> repCount = None, duration = None, other_stats = [] \<rparr>;
          s1 = workoutReducer ''t'' initialState (SET_EXERCISE_SEQUENCE [example_item ''squat'']);
          s2 = workoutReducer ''t'' s1 (SET_CURRENT_EXERCISE 1);
          t = completeCurrentExercise ''t'' s2 st
      in completed_items t = 0 \<and> completedExercises (sessionStats t) = 1)"
proof -
  let ?st = "\<lparr> repCount = Some 12, duration = Some 30, other_stats = [] \<rparr>"
  let ?st' = "\<lparr> repCount = None, duration = None, other_stats = [] \<rparr>"
  let ?s0 = "initialState\<lparr> currentExerciseIndex := 0 \<rparr>"
  have h1: "\<not> (0 \<le> (- 1 :: int) \<and> - 1 < int (length (exerciseSequence initialState)))"
    by simp
  have h2: "currentExerciseIndex initialState < 0"
    by (simp add: initialState_def)
  have h3: "currentExerciseIndex ?s0 \<ge> int (length (exerciseSequence ?s0))"
    by (simp add: initialState_def)
  have h4: "\<forall>x\<in>set [example_item ''squat'']. \<not> completed x"
    by (simp add: example_item_def)
  have i: "exerciseSequence initialState = []" "completedExercises (sessionStats initialState) = 0"
    "totalReps (sessionStats initialState) = 0" "totalDuration (sessionStats initialState) = 0"
    by (simp_all add: initialState_def)
  note t1 = workoutReducer_complete_out_of_range [where i = "- 1" and s = initialState
      and now = "''t''" and st = ?st and xs = "[]"]
  note t2 = workoutReducer_complete_out_of_range [where i = 0 and s = ?s0
      and now = "''t''" and st = ?st' and xs = "[example_item ''squat'']"]
  from t1 h1 i
  have first: "let t = workoutReducer ''t'' initialState (COMPLETE_EXERCISE (- 1) ?st)
    in exerciseSequence t = []
     \<and> completedExercises (sessionStats t) = 1
     \<and> totalReps (sessionStats t) = 12
     \<and> totalDuration (sessionStats t) = 30"
    by (simp add: Let_def)
  from t1 h2 have second: "completeCurrentExercise ''t'' initialState ?st = initialState"
    by blast
  from t2 h3 i
  have third: "let t = completeCurrentExercise ''t'' ?s0 ?st'
      in exerciseSequence t = [] \<and> completedExercises (sessionStats t) = 1"
    by (simp add: Let_def)
  from t2 h4
  have fourth: "let s1 = workoutReducer ''t'' initialState (SET_EXERCISE_SEQUENCE [example_item ''squat'']);
          s2 = workoutReducer ''t'' s1 (SET_CURRENT_EXERCISE 1);
          t = completeCurrentExercise ''t'' s2 ?st'
      in completed_items t = 0 \<and> completedExercises (sessionStats t) = 1"
    by (simp add: Let_def)
  from first second third fourth show ?thesis by (simp add: Let_def)
qed

section \<open>Properties of fetchApi\<close>

subsection \<open>One call, unfolded\<close>

lemma fetchApi_unfold:
  "fetchApi env e opts net =
     ((case answer net (sent net) (request_url env e) (make_config opts) of
         Rejects x \<Rightarrow> Inl (annotate e (request_url env e) (make_config opts) x)
       | Resolves r \<Rightarrow>
           (case handle_response r of
              Inl x \<Rightarrow> Inl (annotate e (request_url env e) (make_config opts) x)
            | Inr v \<Rightarrow> Inr v)),
      net\<lparr> sent := sent net @ [(request_url env e, make_config opts)] \<rparr>)"
  by (simp add: fetchApi_def fetch_def Let_def split: fetch_outcome.splits sum.splits)

lemma requests_of_fetchApi:
  "requests_of (fetchApi env e opts) net = [(request_url env e, make_config opts)]"
  by (simp add: requests_of_def fetchApi_unfold)

lemma handle_response_failure:
  assumes "\<not> ok r" and "errorData r \<noteq> JNull" and "errorData r \<noteq> JUndefined"
  shows "handle_response r =
     Inl \<lparr> kind = Error,
           message = js_to_string (js_or (js_prop (errorData r) ''error'') (JStr ''API request failed'')),
           err_status = Some (status r),
           err_statusText = Some (statusText r),
           err_data = Some (errorData r),
           err_endpoint = None,
           err_request = None \<rparr>"
proof -
  from assms(2,3) have "js_get (errorData r) ''error'' = Inr (js_prop (errorData r) ''error'')"
    by (cases "errorData r") (auto simp: js_prop_def)
  with assms(1) show ?thesis
    by (simp add: handle_response_def new_error_def)
qed


lemma errorData_not_json:
  assumes "json_body r = Inl x"
  shows "errorData r = JObj [(''error'', JStr (statusText r))]"
    and "js_prop (errorData r) ''error'' = JStr (statusText r)"
  using assms by (simp_all add: errorData_def js_prop_def)

lemma errorData_json: "json_body r = Inr v \<Longrightarrow> errorData r = v"
  by (simp add: errorData_def)

lemma thrown_annotated:
  assumes "fst (fetchApi env e opts net) = Inl err"
  shows "err_endpoint err = Some e
     \<and> err_request err = Some (request_details (request_url env e) (make_config opts))"
proof -
  from assms obtain z where "err = annotate e (request_url env e) (make_config opts) z"
    by (auto simp: fetchApi_unfold split: fetch_outcome.splits sum.splits)
  then show ?thesis by (simp add: annotate_def)
qed

lemma handle_response_ok:
  assumes "ok r"
  shows "handle_response r =
     (if status r = 204 \<or> header r ''content-length'' = Some ''0'' then Inr JNull
      else if (case header r ''content-type'' of
                 Some ct \<Rightarrow> str_includes ct ''application/json'' | None \<Rightarrow> False)
      then (case json_body r of Inl x \<Rightarrow> Inl x | Inr v \<Rightarrow> Inr v)
      else (case text_body r of Inl x \<Rightarrow> Inl x | Inr t \<Rightarrow> Inr (JStr t)))"
  using assms by (auto simp: handle_response_def split: option.splits sum.splits)

subsection \<open>Thrown errors\<close>

text \<open>
  An option named \<open>url\<close> takes the place of the requested URL in the request details
  of a thrown error; the request itself still goes to the requested URL.
\<close>

lemma request_details_url_option:
  "fetchApi None ''exercise/data''
      (no_options\<lparr> opt_rest := [(''url'', JStr ''http://elsewhere/x'')] \<rparr>) offline
   = (Inl ((new_error TypeError ''Failed to fetch'')
            \<lparr> err_endpoint := Some ''exercise/data'',
              err_request :=
                Some \<lparr> req_url = JStr ''http://elsewhere/x'',
                       req_config =
                         make_config (no_options\<lparr> opt_rest := [(''url'', JStr ''http://elsewhere/x'')] \<rparr>) \<rparr> \<rparr>),
      offline\<lparr> sent :=
        [(''/api/exercise/data'',
          make_config (no_options\<lparr> opt_rest := [(''url'', JStr ''http://elsewhere/x'')] \<rparr>))] \<rparr>)"
  by (simp add: fetchApi_unfold offline_def annotate_def request_details_def make_config_def
      no_options_def request_url_def API_BASE_URL_def)

text \<open>
  Claim C1, as the code has it. When the response is not ok, \<open>errorData\<close> (the parsed
  body, or \<open>{ error: statusText }\<close> when the body is not JSON) is not \<open>null\<close> and its
  \<open>error\<close> property is a plain value, \<open>fetchApi\<close> throws an Error that carries
  \<open>status\<close>, \<open>statusText\<close>, \<open>errorData\<close> as \<open>data\<close>, the endpoint and the request
  details. Its message is the string of \<open>errorData.error || 'API request failed'\<close>: the
  \<open>error\<close> property itself when that is a string that is not empty, and
  \<open>API request failed\<close> when the property is falsy; for a body that is not JSON the
  property is the status text. A rejection of \<open>fetch\<close> is thrown again with the endpoint
  and the request details added, and every error thrown by a call with a string endpoint
  carries both. The request details hold the configuration, and the requested URL when
  the options have no \<open>url\<close> property of their own.
\<close>

theorem fetchApi_error_annotation:
  "(answer net (sent net) (request_url env e) (make_config opts) = Resolves r
      \<and> \<not> ok r \<and> errorData r \<noteq> JNull \<and> errorData r \<noteq> JUndefined
      \<and> plain_value (js_prop (errorData r) ''error'') \<longrightarrow>
      fst (fetchApi env e opts net) =
        Inl \<lparr> kind = Error,
              message = js_to_string
                 (js_or (js_prop (errorData r) ''error'') (JStr ''API request failed'')),
              err_status = Some (status r),
              err_statusText = Some (statusText r),
              err_data = Some (errorData r),
              err_endpoint = Some e,
              err_request = Some (request_details (request_url env e) (make_config opts)) \<rparr>)
   \<and> (s \<noteq> [] \<longrightarrow> js_to_string (js_or (JStr s) (JStr ''API request failed'')) = s)
   \<and> (\<not> truthy f \<longrightarrow> js_to_string (js_or f (JStr ''API request failed'')) = ''API request failed'')
   \<and> (json_body r = Inr v \<longrightarrow> errorData r = v)
   \<and> (json_body r = Inl y \<longrightarrow>
        errorData r = JObj [(''error'', JStr (statusText r))]
      \<and> js_prop (errorData r) ''error'' = JStr (statusText r))
   \<and> (answer net (sent net) (request_url env e) (make_config opts) = Rejects x \<longrightarrow>
        fst (fetchApi env e opts net) =
          Inl (x\<lparr> err_endpoint := Some e,
                   err_request := Some (request_details (request_url env e) (make_config opts)) \<rparr>))
   \<and> (fst (fetchApi env e opts net) = Inl err \<longrightarrow>
          err_endpoint err = Some e
        \<and> err_request err = Some (request_details (request_url env e) (make_config opts)))
   \<and> req_config (request_details u c) = c
   \<and> (map_of (rest c) ''url'' = None \<longrightarrow> req_url (request_details u c) = JStr u)"
proof -
  let ?url = "request_url env e" and ?cfg = "make_config opts"
  have failed: "fst (fetchApi env e opts net) =
        Inl \<lparr> kind = Error,
              message = js_to_string
                 (js_or (js_prop (errorData r) ''error'') (JStr ''API request failed'')),
              err_status = Some (status r),
              err_statusText = Some (statusText r), err_data = Some (errorData r),
              err_endpoint = Some e, err_request = Some (request_details ?url ?cfg) \<rparr>"
    if "answer net (sent net) ?url ?cfg = Resolves r
      \<and> \<not> ok r \<and> errorData r \<noteq> JNull \<and> errorData r \<noteq> JUndefined
      \<and> plain_value (js_prop (errorData r) ''error'')"
    using that by (simp add: fetchApi_unfold annotate_def handle_response_failure)
  have rejected: "fst (fetchApi env e opts net) =
      Inl (x\<lparr> err_endpoint := Some e, err_request := Some (request_details ?url ?cfg) \<rparr>)"
    if "answer net (sent net) ?url ?cfg = Rejects x"
    using that by (simp add: fetchApi_unfold annotate_def)
  have str: "js_to_string (js_or (JStr s) (JStr ''API request failed'')) = s" if "s \<noteq> []"
    using that by (simp add: js_or_def)
  have falsy: "js_to_string (js_or f (JStr ''API request failed'')) = ''API request failed''"
    if "\<not> truthy f"
    using that by (simp add: js_or_def)
  have details: "req_config (request_details u c) = c"
    "map_of (rest c) ''url'' = None \<Longrightarrow> req_url (request_details u c) = JStr u"
    by (simp_all add: request_details_def)
  from failed rejected str falsy details show ?thesis
    using thrown_annotated [of env e opts net err] errorData_json [of r v]
      errorData_not_json [of r y]
    by blast
qed

text \<open>
  The theorem at a 404 response with the JSON body \<open>{ error: 'No active exercise' }\<close>,
  at an error page that is not JSON and has an empty status text, and at a network that
  rejects the request.
\<close>

theorem fetchApi_error_annotation_witness:
  "fst (fetchApi None ''exercise/data'' no_options (serving not_found)) =
       Inl \<lparr> kind = Error,
             message = ''No active exercise'',
             err_status = Some 404,
             err_statusText = Some ''Not Found'',
             err_data = Some (JObj [(''error'', JStr ''No active exercise'')]),
             err_endpoint = Some ''exercise/data'',
             err_request = Some \<lparr> req_url = JStr ''/api/exercise/data'',
                                   req_config = make_config no_options \<rparr> \<rparr>
   \<and> errorData bad_gateway = JObj [(''error'', JStr [])]
   \<and> js_to_string (js_or (JStr []) (JStr ''API request failed'')) = ''API request failed''
   \<and> fst (fetchApi None ''exercise/data'' no_options offline) =
       Inl ((new_error TypeError ''Failed to fetch'')
             \<lparr> err_endpoint := Some ''exercise/data'',
               err_request := Some \<lparr> req_url = JStr ''/api/exercise/data'',
                                     req_config = make_config no_options \<rparr> \<rparr>)"
proof -
  let ?url = "request_url None ''exercise/data''"
  let ?cfg = "make_config no_options"
  let ?x = "new_error TypeError ''Failed to fetch''"
  let ?y = "new_error SyntaxError ''Unexpected token <''"
  let ?v = "JObj [(''error'', JStr ''No active exercise'')]"
  have u: "?url = ''/api/exercise/data''"
    by (simp add: request_url_def API_BASE_URL_def)
  have nourl: "map_of (rest ?cfg) ''url'' = None"
    by (simp add: make_config_def no_options_def)
  have j: "json_body not_found = Inr ?v" and s: "status not_found = 404"
    "statusText not_found = ''Not Found''" "\<not> ok not_found"
    by (simp_all add: not_found_def)
  have jb: "json_body bad_gateway = Inl ?y" and sb: "statusText bad_gateway = []"
    by (simp_all add: bad_gateway_def)
  have a: "answer (serving not_found) (sent (serving not_found)) ?url ?cfg = Resolves not_found"
    by (simp add: serving_def)
  have r: "answer offline (sent offline) ?url ?cfg = Rejects ?x"
    by (simp add: offline_def)
  note t1 = fetchApi_error_annotation [where net = "serving not_found" and env = None
      and e = "''exercise/data''" and opts = no_options and r = not_found and v = ?v
      and s = "''No active exercise''" and f = "JStr []" and u = ?url and c = ?cfg]
  note t2 = fetchApi_error_annotation [where net = offline and env = None
      and e = "''exercise/data''" and opts = no_options and r = bad_gateway and y = ?y and x = ?x
      and f = "JStr []"]
  from t1 j have d: "errorData not_found = ?v"
    by blast
  from t1 have m: "js_to_string (js_or (JStr ''No active exercise'') (JStr ''API request failed''))
      = ''No active exercise''"
    by simp
  from t1 nourl have q: "request_details ?url ?cfg = \<lparr> req_url = JStr ?url, req_config = ?cfg \<rparr>"
    by (cases "request_details ?url ?cfg") simp
  have h: "answer (serving not_found) (sent (serving not_found)) ?url ?cfg = Resolves not_found
      \<and> \<not> ok not_found \<and> errorData not_found \<noteq> JNull \<and> errorData not_found \<noteq> JUndefined
      \<and> plain_value (js_prop (errorData not_found) ''error'')"
    using a s by (simp add: d js_prop_def)
  from t1 h have first: "fst (fetchApi None ''exercise/data'' no_options (serving not_found)) =
        Inl \<lparr> kind = Error,
              message = js_to_string
                 (js_or (js_prop (errorData not_found) ''error'') (JStr ''API request failed'')),
              err_status = Some (status not_found),
              err_statusText = Some (statusText not_found),
              err_data = Some (errorData not_found),
              err_endpoint = Some ''exercise/data'',
              err_request = Some (request_details ?url ?cfg) \<rparr>"
    by blast
  from t2 jb have "errorData bad_gateway = JObj [(''error'', JStr (statusText bad_gateway))]"
    by blast
  with sb have second: "errorData bad_gateway = JObj [(''error'', JStr [])]"
    by simp
  from t2 have third: "js_to_string (js_or (JStr []) (JStr ''API request failed''))
      = ''API request failed''"
    by simp
  from t2 r have fourth: "fst (fetchApi None ''exercise/data'' no_options offline) =
          Inl (?x\<lparr> err_endpoint := Some ''exercise/data'',
                    err_request := Some (request_details ?url ?cfg) \<rparr>)"
    by blast
  from first second third fourth show ?thesis
    using m by (simp add: q d s js_prop_def) (simp add: u)
qed

text \<open>
  The claim as it was stated gives the status text as the message when the body is not
  JSON. Over HTTP/2 the status text is empty: for a 502 error page the message is
  \<open>API request failed\<close>, not the (empty) status text.
\<close>

theorem fetchApi_status_text_counterexample:
  "\<not> ok bad_gateway
   \<and> json_body bad_gateway = Inl (new_error SyntaxError ''Unexpected token <'')
   \<and> statusText bad_gateway = []
   \<and> fst (fetchApi None ''video/status'' no_options (serving bad_gateway)) =
       Inl \<lparr> kind = Error,
             message = ''API request failed'',
             err_status = Some 502,
             err_statusText = Some [],
             err_data = Some (JObj [(''error'', JStr [])]),
             err_endpoint = Some ''video/status'',
             err_request = Some \<lparr> req_url = JStr ''/api/video/status'',
                                   req_config = make_config no_options \<rparr> \<rparr>"
  by (simp add: bad_gateway_def serving_def fetchApi_unfold handle_response_def errorData_def
      new_error_def annotate_def js_or_def request_url_def API_BASE_URL_def request_details_def
      make_config_def no_options_def)

subsection \<open>Returned values\<close>

text \<open>
  Claim C5, as the code has it. For a response that is ok: \<open>fetchApi\<close> returns \<open>null\<close>
  when the status is 204 or the \<open>content-length\<close> header is \<open>0\<close>. Otherwise, when the
  \<open>content-type\<close> header contains \<open>application/json\<close>, it returns the parsed body if
  \<open>response.json()\<close> yields one, and throws the annotated rejection if the body does
  not parse; and when the header does not contain it, it returns the body text if
  \<open>response.text()\<close> yields it, and throws the annotated rejection if not.
\<close>

theorem fetchApi_success:
  assumes "answer net (sent net) (request_url env e) (make_config opts) = Resolves r"
    and "ok r"
  shows "(status r = 204 \<or> header r ''content-length'' = Some ''0'' \<longrightarrow>
            fst (fetchApi env e opts net) = Inr JNull)
     \<and> (status r \<noteq> 204 \<and> header r ''content-length'' \<noteq> Some ''0'' \<longrightarrow>
          (if (case header r ''content-type'' of
                 Some ct \<Rightarrow> str_includes ct ''application/json'' | None \<Rightarrow> False)
           then (json_body r = Inr v \<longrightarrow> fst (fetchApi env e opts net) = Inr v)
              \<and> (json_body r = Inl x \<longrightarrow>
                   fst (fetchApi env e opts net)
                     = Inl (annotate e (request_url env e) (make_config opts) x))
           else (text_body r = Inr t \<longrightarrow> fst (fetchApi env e opts net) = Inr (JStr t))
              \<and> (text_body r = Inl x \<longrightarrow>
                   fst (fetchApi env e opts net)
                     = Inl (annotate e (request_url env e) (make_config opts) x))))"
  using assms by (simp add: fetchApi_unfold handle_response_ok)

text \<open>
  The theorem at a 200 response with a JSON body, at a 204 response, and at a 200
  response of plain text.
\<close>

theorem fetchApi_success_witness:
  "fst (fetchApi None ''exercise/data'' no_options (serving exercise_data))
     = Inr (JObj [(''rep_count'', JNum 7)])
   \<and> fst (fetchApi None ''exercise/stop'' no_options (serving no_content)) = Inr JNull
   \<and> fst (fetchApi None ''video/feed'' no_options (serving plain_text)) = Inr (JStr ''ready'')"
proof -
  let ?cfg = "make_config no_options"
  let ?x = "new_error Error []"
  have a: "answer (serving exercise_data) (sent (serving exercise_data))
      (request_url None ''exercise/data'') ?cfg = Resolves exercise_data"
    by (simp add: serving_def)
  have b: "ok exercise_data"
    by (simp add: exercise_data_def)
  have c: "status exercise_data \<noteq> 204 \<and> header exercise_data ''content-length'' \<noteq> Some ''0''"
    by (simp add: exercise_data_def)
  have d: "(case header exercise_data ''content-type'' of
              Some ct \<Rightarrow> str_includes ct ''application/json'' | None \<Rightarrow> False)"
    by (simp add: exercise_data_def)
  have j: "json_body exercise_data = Inr (JObj [(''rep_count'', JNum 7)])"
    by (simp add: exercise_data_def)
  from fetchApi_success [OF a b, of "JObj [(''rep_count'', JNum 7)]" ?x "[]"] c d j
  have first: "fst (fetchApi None ''exercise/data'' no_options (serving exercise_data))
     = Inr (JObj [(''rep_count'', JNum 7)])"
    by simp
  have a': "answer (serving no_content) (sent (serving no_content))
      (request_url None ''exercise/stop'') ?cfg = Resolves no_content"
    by (simp add: serving_def)
  have b': "ok no_content" and c': "status no_content = 204"
    by (simp_all add: no_content_def)
  from fetchApi_success [OF a' b', of JNull ?x "[]"] c'
  have second: "fst (fetchApi None ''exercise/stop'' no_options (serving no_content)) = Inr JNull"
    by simp
  have a'': "answer (serving plain_text) (sent (serving plain_text))
      (request_url None ''video/feed'') ?cfg = Resolves plain_text"
    by (simp add: serving_def)
  have b'': "ok plain_text"
    and c'': "status plain_text \<noteq> 204 \<and> header plain_text ''content-length'' \<noteq> Some ''0''"
    and d'': "\<not> (case header plain_text ''content-type'' of
              Some ct \<Rightarrow> str_includes ct ''application/json'' | None \<Rightarrow> False)"
    and t'': "text_body plain_text = Inr ''ready''"
    by (simp_all add: plain_text_def)
  from fetchApi_success [OF a'' b'', of JNull ?x "''ready''"] c'' d'' t''
  have "fst (fetchApi None ''video/feed'' no_options (serving plain_text)) = Inr (JStr ''ready'')"
    by simp
  with first second show ?thesis by simp
qed

text \<open>
  The claim as it was stated has \<open>fetchApi\<close> return the parsed body for every ok
  response whose \<open>content-type\<close> contains \<open>application/json\<close>. For a 200 response that
  announces JSON, has no \<open>content-length\<close> header and a body that does not parse,
  nothing is returned: the SyntaxError of \<open>response.json()\<close> is thrown.
\<close>

theorem fetchApi_unparsed_counterexample:
  "ok truncated_json
   \<and> status truncated_json = 200
   \<and> header truncated_json ''content-length'' = None
   \<and> header truncated_json ''content-type'' = Some ''application/json''
   \<and> fst (fetchApi None ''exercise/data'' no_options (serving truncated_json))
       = Inl ((new_error SyntaxError ''Unexpected end of JSON input'')
               \<lparr> err_endpoint := Some ''exercise/data'',
                 err_request :=
                   Some \<lparr> req_url = JStr ''/api/exercise/data'',
                          req_config = make_config no_options \<rparr> \<rparr>)"
  by (simp add: truncated_json_def serving_def fetchApi_unfold handle_response_def annotate_def
      request_details_def request_url_def API_BASE_URL_def make_config_def no_options_def)

subsection \<open>Requests made\<close>




subsection \<open>Request URLs\<close>

lemma request_url_normal:
  "request_url env e = API_BASE_URL env @ ''/'' @ (if prefix ''/'' e then tl e else e)"
  by (cases e) (auto simp: request_url_def)

lemma requests_of_get: "requests_of (get env e opts) net
    = [(request_url env e, make_config (opts\<lparr> opt_method := Some ''GET'' \<rparr>))]"
  by (simp add: get_def requests_of_fetchApi)

lemma requests_of_post: "requests_of (post env e payload opts) net
    = [(request_url env e, make_config (opts\<lparr> opt_method := Some ''POST'', opt_body := payload \<rparr>))]"
  by (simp add: post_def requests_of_fetchApi)

lemma request_url_default: "request_url None e = ''/api'' @ (if prefix ''/'' e then e else ''/'' @ e)"
  by (simp add: request_url_def API_BASE_URL_def)

lemma sent_get: "sent (snd (get env e opts net))
    = sent net @ [(request_url env e, make_config (opts\<lparr> opt_method := Some ''GET'' \<rparr>))]"
  by (simp add: get_def fetchApi_unfold)

lemma requests_of_getCommonFeedback:
  "\<forall>(u, c)\<in>set (requests_of (getCommonFeedback urlencode None p) net).
      prefix ''/api/exercise/'' u"
proof -
  let ?params = "default_param p (JObj [])"
  show ?thesis
  proof (cases "js_get ?params ''exercise''")
    case (Inl k)
    then show ?thesis
      by (simp add: getCommonFeedback_def requests_of_def Let_def)
  next
    case ex: (Inr exercise)
    show ?thesis
    proof (cases "js_get ?params ''period''")
      case (Inl k)
      with ex show ?thesis
        by (simp add: getCommonFeedback_def requests_of_def Let_def)
    next
      case (Inr period)
      with ex show ?thesis
        by (simp add: getCommonFeedback_def Let_def requests_of_def sent_get request_url_default)
    qed
  qed
qed

text \<open>
  Claim C6, as the code has it. For every endpoint \<open>e\<close> the URL that \<open>fetchApi\<close>
  requests is the base URL, then \<open>/\<close>, then \<open>e\<close> without one leading \<open>/\<close>; so for every
  \<open>e\<close> that does not itself begin with \<open>/\<close>, \<open>fetchApi(e)\<close> and \<open>fetchApi('/' + e)\<close>
  request the same URL. With \<open>REACT_APP_API_URL\<close> unset the base URL is \<open>/api\<close>, every
  request of the video service goes to a URL that begins with \<open>/api/video/\<close> (as does
  the feed URL), and every request of the exercise service to one that begins with
  \<open>/api/exercise/\<close>.
\<close>

theorem request_url_services:
  "map fst (requests_of (fetchApi env e opts) net)
     = [API_BASE_URL env @ ''/'' @ (if prefix ''/'' e then tl e else e)]
   \<and> (\<not> prefix ''/'' e \<longrightarrow>
        map fst (requests_of (fetchApi env (''/'' @ e) opts) net)
          = map fst (requests_of (fetchApi env e opts) net))
   \<and> API_BASE_URL None = ''/api''
   \<and> (\<forall>call\<in>set (video_service None params).
         \<forall>(u, c)\<in>set (requests_of call net). prefix ''/api/video/'' u)
   \<and> prefix ''/api/video/'' getVideoFeedUrl
   \<and> (\<forall>call\<in>set (exercise_service urlencode None params feedback_params).
         \<forall>(u, c)\<in>set (requests_of call net). prefix ''/api/exercise/'' u)"
proof (intro conjI impI)
  show "map fst (requests_of (fetchApi env e opts) net)
     = [API_BASE_URL env @ ''/'' @ (if prefix ''/'' e then tl e else e)]"
    by (simp add: requests_of_fetchApi request_url_normal)
next
  assume "\<not> prefix ''/'' e"
  then show "map fst (requests_of (fetchApi env (''/'' @ e) opts) net)
          = map fst (requests_of (fetchApi env e opts) net)"
    by (simp add: requests_of_fetchApi request_url_def)
next
  show "API_BASE_URL None = ''/api''"
    by (simp add: API_BASE_URL_def)
next
  show "\<forall>call\<in>set (video_service None params).
         \<forall>(u, c)\<in>set (requests_of call net). prefix ''/api/video/'' u"
    by (simp add: video_service_def startVideoFeed_def stopVideoFeed_def getVideoStatus_def
        getCurrentFrame_def requests_of_get requests_of_post request_url_default)
next
  show "prefix ''/api/video/'' getVideoFeedUrl"
    by (simp add: getVideoFeedUrl_def)
next
  show "\<forall>call\<in>set (exercise_service urlencode None params feedback_params).
         \<forall>(u, c)\<in>set (requests_of call net). prefix ''/api/exercise/'' u"
    using requests_of_getCommonFeedback [of urlencode feedback_params net]
    by (simp add: exercise_service_def startExercise_def stopExercise_def getExerciseData_def
        getExerciseStats_def getExerciseHistory_def requests_of_get requests_of_post
        request_url_default)
qed

text \<open>
  The theorem at the endpoint \<open>video/start\<close>, with and without a leading \<open>/\<close>, and at
  \<open>getExerciseData\<close>.
\<close>

theorem request_url_services_witness:
  "map fst (requests_of (fetchApi None ''video/start'' no_options) offline) = [''/api/video/start'']
   \<and> map fst (requests_of (fetchApi None ''/video/start'' no_options) offline) = [''/api/video/start'']
   \<and> map fst (requests_of (getExerciseData None) offline) = [''/api/exercise/data'']
   \<and> prefix ''/api/exercise/'' ''/api/exercise/data''"
proof -
  note t = request_url_services [where env = None and e = "''video/start''" and opts = no_options
      and net = offline and params = JUndefined and urlencode = id and feedback_params = JUndefined]
  have n: "\<not> prefix ''/'' ''video/start''" by simp
  from t have a: "map fst (requests_of (fetchApi None ''video/start'' no_options) offline)
      = [''/api/video/start'']"
    by simp
  from t n have b: "map fst (requests_of (fetchApi None (''/'' @ ''video/start'') no_options) offline)
      = map fst (requests_of (fetchApi None ''video/start'' no_options) offline)"
    by blast
  have c: "map fst (requests_of (getExerciseData None) offline) = [''/api/exercise/data'']"
    by (simp add: getExerciseData_def requests_of_get request_url_default)
  have "getExerciseData None \<in> set (exercise_service id None JUndefined JUndefined)"
    by (simp add: exercise_service_def)
  with t have "\<forall>(u, c)\<in>set (requests_of (getExerciseData None) offline). prefix ''/api/exercise/'' u"
    by blast
  with c have d: "prefix ''/api/exercise/'' ''/api/exercise/data''"
    by (auto simp: requests_of_def getExerciseData_def get_def fetchApi_unfold offline_def
        request_url_default)
  from a b c d show ?thesis by simp
qed

text \<open>
  The claim as it was stated has \<open>fetchApi(e)\<close> and \<open>fetchApi('/' + e)\<close> request the same
  URL for every endpoint \<open>e\<close>. For \<open>e = '/video/start'\<close> the first requests
  \<open>/api/video/start\<close> and the second \<open>/api//video/start\<close>: only one leading \<open>/\<close> is
  taken into account.
\<close>

theorem request_url_slash_counterexample:
  "map fst (requests_of (fetchApi None ''/video/start'' no_options) offline) = [''/api/video/start'']
   \<and> map fst (requests_of (fetchApi None (''/'' @ ''/video/start'') no_options) offline)
       = [''/api//video/start'']"
  by (simp add: requests_of_fetchApi request_url_default)

end
